theory Spec2Isabelle
  imports Complex_Main "HOL-Library.AList" "HOL-Library.Log_Nat"
begin

section \<open>Python values\<close>

text \<open>
  The client of \<^verbatim>\<open>src/checkbox_api.py\<close> works on dynamically typed values: JSON bodies,
  the \<^verbatim>\<open>Dict[str, Any]\<close> arguments of \<^verbatim>\<open>create_receipt\<close> and the result
  dictionaries it returns. They are embedded as one datatype. A dictionary is an
  association list in insertion order (its keys are strings throughout the source); a
  list that stands for a dictionary has no key twice.

  A float is an IEEE 754 binary64 number, given by its exact rational value; the two
  infinities and NaN are kept apart. The sign of zero is not modelled: no operation of
  the source observes it.
\<close>

datatype pyfloat = Finite rat | PosInf | NegInf | NaN

datatype pyval =
    PNone
  | PBool bool
  | PInt int
  | PFloat pyfloat
  | PStr string
  | PList "pyval list"
  | PDict "(string \<times> pyval) list"

type_synonym dict = "(string \<times> pyval) list"

text \<open>Truth value testing, as \<^verbatim>\<open>if x\<close>, \<^verbatim>\<open>not x\<close> and \<^verbatim>\<open>x or y\<close> perform it.\<close>

fun truthy :: "pyval \<Rightarrow> bool" where
  "truthy PNone = False"
| "truthy (PBool b) = b"
| "truthy (PInt i) = (i \<noteq> 0)"
| "truthy (PFloat f) = (f \<noteq> Finite 0)"
| "truthy (PStr s) = (s \<noteq> [])"
| "truthy (PList xs) = (xs \<noteq> [])"
| "truthy (PDict d) = (d \<noteq> [])"

text \<open>\<^verbatim>\<open>x or y\<close>\<close>

definition py_or :: "pyval \<Rightarrow> pyval \<Rightarrow> pyval" where
  "py_or x y = (if truthy x then x else y)"

text \<open>\<^verbatim>\<open>d.get(k, default)\<close>; \<^verbatim>\<open>d.get(k)\<close> is \<^verbatim>\<open>d.get(k, None)\<close>.\<close>

definition dict_get :: "dict \<Rightarrow> string \<Rightarrow> pyval \<Rightarrow> pyval" where
  "dict_get d k dflt = (case map_of d k of None \<Rightarrow> dflt | Some v \<Rightarrow> v)"

text \<open>\<^verbatim>\<open>k in d\<close>\<close>

definition has_key :: "('k \<times> 'v) list \<Rightarrow> 'k \<Rightarrow> bool" where
  "has_key d k = (map_of d k \<noteq> None)"

text \<open>
  \<^verbatim>\<open>{**a, **b}\<close>: the entries of \<open>b\<close> are stored into \<open>a\<close> one after the other; a
  key that is already there keeps its place and takes the new value, a new key goes to
  the end (\<^const>\<open>AList.update\<close>).
\<close>

definition dict_merge :: "('k \<times> 'v) list \<Rightarrow> ('k \<times> 'v) list \<Rightarrow> ('k \<times> 'v) list" where
  "dict_merge a b = fold (\<lambda>(k, v) d. AList.update k v d) b a"

text \<open>\<^verbatim>\<open>s.lstrip('/')\<close> and \<^verbatim>\<open>s.upper()\<close> (on ASCII letters).\<close>

definition lstrip_slash :: "string \<Rightarrow> string" where
  "lstrip_slash s = dropWhile (\<lambda>c. c = CHR ''/'') s"

definition upper :: "string \<Rightarrow> string" where
  "upper s = map (\<lambda>c. if 97 \<le> (of_char c :: nat) \<and> (of_char c :: nat) \<le> 122
                       then char_of ((of_char c :: nat) - 32) else c) s"

section \<open>Floats\<close>

text \<open>
  \<open>pow2 k\<close> is \<open>2\<close> to the power \<open>k\<close> for an integer \<open>k\<close>; \<open>floor_log2 q\<close> is, for
  \<open>q > 0\<close>, the exponent \<open>e\<close> with \<open>2^e \<le> q < 2^(e+1)\<close>.
\<close>

definition pow2 :: "int \<Rightarrow> rat" where
  "pow2 k = (if 0 \<le> k then 2 ^ nat k else 1 / 2 ^ nat (- k))"

definition floor_log2 :: "rat \<Rightarrow> int" where
  "floor_log2 q = (if 1 \<le> q then bitlen \<lfloor>q\<rfloor> - 1 else - bitlen (\<lceil>1 / q\<rceil> - 1))"

text \<open>Rounding to the nearest integer, a tie going to the even one.\<close>

definition round_half_even :: "rat \<Rightarrow> int" where
  "round_half_even q =
     (let n = \<lfloor>q\<rfloor>; r = q - of_int n
      in if r < 1 / 2 then n else if 1 / 2 < r then n + 1 else if even n then n else n + 1)"

text \<open>
  Rounding a rational to binary64, to nearest with ties to even: 53 significant bits,
  the unit in the last place never below \<open>2^-1074\<close> (subnormals), and an infinity when
  the rounded value reaches \<open>2^1024\<close>.
\<close>

definition round_double :: "rat \<Rightarrow> pyfloat" where
  "round_double q =
     (if q = 0 then Finite 0
      else
        let e = max (floor_log2 \<bar>q\<bar> - 52) (- 1074);
            v = of_int (round_half_even (\<bar>q\<bar> / pow2 e)) * pow2 e
        in if pow2 1024 \<le> v then (if 0 < q then PosInf else NegInf)
           else Finite (if 0 < q then v else - v))"

text \<open>The product of two floats (\<^verbatim>\<open>x * y\<close>).\<close>

fun fmul :: "pyfloat \<Rightarrow> pyfloat \<Rightarrow> pyfloat" where
  "fmul NaN _ = NaN"
| "fmul _ NaN = NaN"
| "fmul (Finite a) (Finite b) = round_double (a * b)"
| "fmul (Finite a) PosInf = (if a = 0 then NaN else if 0 < a then PosInf else NegInf)"
| "fmul (Finite a) NegInf = (if a = 0 then NaN else if 0 < a then NegInf else PosInf)"
| "fmul PosInf (Finite b) = (if b = 0 then NaN else if 0 < b then PosInf else NegInf)"
| "fmul NegInf (Finite b) = (if b = 0 then NaN else if 0 < b then NegInf else PosInf)"
| "fmul PosInf PosInf = PosInf"
| "fmul PosInf NegInf = NegInf"
| "fmul NegInf PosInf = NegInf"
| "fmul NegInf NegInf = PosInf"

section \<open>Exceptions, requests and responses\<close>

text \<open>
  What the client reads of a \<^verbatim>\<open>requests.Response\<close>: its status code, its text, and
  what \<^verbatim>\<open>r.json()\<close> returns (\<open>None\<close> when it raises \<^verbatim>\<open>ValueError\<close>, the body not
  being JSON).
\<close>

record response =
  status_code :: int
  resp_text :: string
  resp_json :: "pyval option"

text \<open>
  The exceptions that occur. \<open>HTTPError r\<close> is a \<^verbatim>\<open>requests.exceptions.HTTPError\<close>
  carrying the response \<open>r\<close>; \<open>HTTPErrorNoResponse m\<close> is one whose \<^verbatim>\<open>response\<close>
  attribute is \<^verbatim>\<open>None\<close>, with \<^verbatim>\<open>str(e) = m\<close>; \<open>RequestException m\<close> is any other
  \<^verbatim>\<open>requests.exceptions.RequestException\<close> (connection error, timeout, ...) with
  \<^verbatim>\<open>str(e) = m\<close>. The others are Python's built-in exceptions.
\<close>

datatype exn =
    TypeError
  | ValueError
  | OverflowError
  | AttributeError
  | HTTPError response
  | HTTPErrorNoResponse string
  | RequestException string

record request =
  req_method :: string
  req_url :: string
  req_headers :: "(string \<times> string) list"
  req_params :: dict
  req_json :: dict
  req_timeout :: int

datatype reply = Returned response | Raised exn

record CheckboxConfig =
  check_url :: string
  api_url :: string
  api_version :: string
  client_name :: string
  client_version :: string
  timeout_sec :: int

definition default_config :: CheckboxConfig where
  "default_config =
     \<lparr>check_url = ''https://check.checkbox.ua/'',
      api_url = ''https://api.checkbox.ua/api/'',
      api_version = ''v1'',
      client_name = ''Name'',
      client_version = ''v1'',
      timeout_sec = 25\<rparr>"

text \<open>
  Everything a call depends on besides its arguments: the configuration of the client,
  the HTTP collaborator (\<^verbatim>\<open>session.request\<close>: it answers a request with a response or
  raises), the string \<^verbatim>\<open>str(uuid.uuid4())\<close> yields in this call, and two built-ins of
  Python that are not spelled out here: the string an f-string makes of a value
  (\<^verbatim>\<open>format(x)\<close>, which raises for some values: since Python 3.11, \<^verbatim>\<open>ValueError\<close>
  for an integer of more than 4300 digits), and the parser of \<^verbatim>\<open>float(s)\<close> for a
  string \<open>s\<close> (\<open>None\<close> when it raises \<^verbatim>\<open>ValueError\<close>).
\<close>

record env =
  cfg :: CheckboxConfig
  transport :: "request \<Rightarrow> reply"
  uuid4 :: string
  py_str :: "pyval \<Rightarrow> exn + string"
  float_of_str :: "string \<Rightarrow> pyfloat option"

text \<open>
  What a call does: the requests it hands to the HTTP collaborator, in order, and how it
  ends, with a returned value (\<open>Inr\<close>) or a raised exception (\<open>Inl\<close>). Log output is
  not modelled.
\<close>

record run =
  sent :: "request list"
  outcome :: "exn + pyval"

section \<open>Built-ins used by the receipt builder\<close>

text \<open>
  \<^verbatim>\<open>float(x)\<close>: \<^verbatim>\<open>None\<close>, lists and dictionaries raise \<^verbatim>\<open>TypeError\<close>; an
  integer is rounded to the nearest float and raises \<^verbatim>\<open>OverflowError\<close> when it is too
  large; a string is parsed, and raises \<^verbatim>\<open>ValueError\<close> when it is not a number.
\<close>

fun py_float :: "env \<Rightarrow> pyval \<Rightarrow> exn + pyfloat" where
  "py_float w PNone = Inl TypeError"
| "py_float w (PBool b) = Inr (Finite (if b then 1 else 0))"
| "py_float w (PInt i) =
     (case round_double (of_int i) of Finite q \<Rightarrow> Inr (Finite q) | _ \<Rightarrow> Inl OverflowError)"
| "py_float w (PFloat f) = Inr f"
| "py_float w (PStr s) = (case float_of_str w s of None \<Rightarrow> Inl ValueError | Some f \<Rightarrow> Inr f)"
| "py_float w (PList xs) = Inl TypeError"
| "py_float w (PDict d) = Inl TypeError"

text \<open>
  \<^verbatim>\<open>round(f)\<close> of a float, with one argument: the nearest integer, ties to even;
  \<^verbatim>\<open>OverflowError\<close> on an infinity and \<^verbatim>\<open>ValueError\<close> on NaN.
\<close>

fun py_round :: "pyfloat \<Rightarrow> exn + int" where
  "py_round (Finite q) = Inr (round_half_even q)"
| "py_round PosInf = Inl OverflowError"
| "py_round NegInf = Inl OverflowError"
| "py_round NaN = Inl ValueError"

text \<open>\<^verbatim>\<open>int(round(float(x) * 100))\<close>, the expression of lines 149, 165 and 178.\<close>

definition minor_units :: "env \<Rightarrow> pyval \<Rightarrow> exn + int" where
  "minor_units w x =
     (case py_float w x of Inl e \<Rightarrow> Inl e | Inr f \<Rightarrow> py_round (fmul f (Finite 100)))"

section \<open>The result normalizer\<close>

text \<open>
  \<^verbatim>\<open>CheckboxAPI._error\<close> (lines 49-53). \<^verbatim>\<open>(payload or {}).get("message")\<close> raises
  \<^verbatim>\<open>AttributeError\<close> when \<open>payload\<close> is true and not a dictionary.
\<close>

definition CheckboxAPI_error :: "int \<Rightarrow> string \<Rightarrow> pyval \<Rightarrow> exn + pyval" where
  "CheckboxAPI_error status error payload =
     (case py_or payload (PDict []) of
        PDict d \<Rightarrow>
          let msg = py_or (dict_get d ''message'' PNone) (PStr error)
          in Inr (PDict [(''success'', PBool False), (''status'', PInt status),
                         (''error'', PStr error), (''error_description'', msg),
                         (''data'', py_or payload (PDict []))])
      | _ \<Rightarrow> Inl AttributeError)"

text \<open>\<^verbatim>\<open>CheckboxAPI._parse\<close> (lines 55-61).\<close>

definition CheckboxAPI_parse :: "response \<Rightarrow> pyval" where
  "CheckboxAPI_parse r =
     (let data = (case resp_json r of Some j \<Rightarrow> j
                   | None \<Rightarrow> PDict [(''raw'', PStr (resp_text r))]);
          ok = (200 \<le> status_code r \<and> status_code r < 300)
      in PDict [(''success'', PBool ok), (''status'', PInt (status_code r)), (''data'', data)])"

text \<open>
  \<^verbatim>\<open>Response.raise_for_status\<close> of the requests library: it raises an \<^verbatim>\<open>HTTPError\<close>
  carrying the response for a 4xx or 5xx status code and does nothing otherwise.
\<close>

definition raise_for_status :: "response \<Rightarrow> exn option" where
  "raise_for_status r =
     (if 400 \<le> status_code r \<and> status_code r < 600 then Some (HTTPError r) else None)"

text \<open>
  The headers \<^verbatim>\<open>__init__\<close> stores in the session (lines 40-47). The entries the
  requests library puts into a new session by itself (\<^verbatim>\<open>User-Agent\<close> and the like) are
  left out; no property below speaks of the headers.
\<close>

definition session_headers :: "CheckboxConfig \<Rightarrow> (string \<times> string) list" where
  "session_headers c =
     [(''accept'', ''application/json''),
      (''Content-Type'', ''application/json''),
      (''X-Client-Name'', client_name c),
      (''X-Client-Version'', client_version c)]"

text \<open>
  The two \<^verbatim>\<open>except\<close> clauses of \<^verbatim>\<open>_request\<close> (lines 83-93). An exception that is
  neither an \<^verbatim>\<open>HTTPError\<close> nor a \<^verbatim>\<open>RequestException\<close> is not caught. An exception
  raised inside a handler is not caught by the next one.
\<close>

fun handle_exn :: "exn \<Rightarrow> exn + pyval" where
  "handle_exn (HTTPError r) =
     CheckboxAPI_error (status_code r) ''HTTP error''
       (case resp_json r of Some j \<Rightarrow> j | None \<Rightarrow> PDict [(''raw'', PStr (resp_text r))])"
| "handle_exn (HTTPErrorNoResponse m) =
     CheckboxAPI_error 400 ''HTTP error'' (PDict [(''raw'', PStr m)])"
| "handle_exn (RequestException m) =
     CheckboxAPI_error 400 ''Network error'' (PDict [(''detail'', PStr m)])"
| "handle_exn e = Inl e"

text \<open>
  Lines 81-93, once \<^verbatim>\<open>session.request\<close> has answered: a response goes through
  \<^verbatim>\<open>raise_for_status\<close> and \<^verbatim>\<open>_parse\<close>, an exception raised by either call goes to the
  handlers.
\<close>

definition try_block :: "reply \<Rightarrow> exn + pyval" where
  "try_block rp =
     (case rp of
        Raised e \<Rightarrow> handle_exn e
      | Returned r \<Rightarrow>
          (case raise_for_status r of
             Some e \<Rightarrow> handle_exn e
           | None \<Rightarrow> Inr (CheckboxAPI_parse r)))"

text \<open>The arguments \<^verbatim>\<open>_request\<close> passes to \<^verbatim>\<open>session.request\<close> (lines 71-80).\<close>

definition build_request ::
  "env \<Rightarrow> string \<Rightarrow> string \<Rightarrow> (string \<times> string) list option \<Rightarrow> dict option \<Rightarrow> dict option \<Rightarrow> request"
where
  "build_request w method endpoint headers params body =
     \<lparr>req_method = upper method,
      req_url = api_url (cfg w) @ api_version (cfg w) @ ''/'' @ lstrip_slash endpoint,
      req_headers = dict_merge (session_headers (cfg w))
                      (case headers of None \<Rightarrow> [] | Some h \<Rightarrow> h),
      req_params = (case params of None \<Rightarrow> [] | Some p \<Rightarrow> p),
      req_json = (case body of None \<Rightarrow> [] | Some b \<Rightarrow> b),
      req_timeout = timeout_sec (cfg w)\<rparr>"

text \<open>\<^verbatim>\<open>CheckboxAPI._request\<close> (lines 63-93).\<close>

definition CheckboxAPI_request ::
  "env \<Rightarrow> string \<Rightarrow> string \<Rightarrow> (string \<times> string) list option \<Rightarrow> dict option \<Rightarrow> dict option \<Rightarrow> run"
where
  "CheckboxAPI_request w method endpoint headers params body =
     (let q = build_request w method endpoint headers params body
      in \<lparr>sent = [q], outcome = try_block (transport w q)\<rparr>)"

text \<open>A call that ends before any request is made.\<close>

definition no_call :: "exn + pyval \<Rightarrow> run" where
  "no_call res = \<lparr>sent = [], outcome = res\<rparr>"

section \<open>The operations\<close>

text \<open>\<^verbatim>\<open>cashier_signin\<close> (lines 95-101).\<close>

definition cashier_signin :: "env \<Rightarrow> string option \<Rightarrow> string option \<Rightarrow> run" where
  "cashier_signin w login password =
     (case (login, password) of
        (Some l, Some p) \<Rightarrow>
          if l = [] \<or> p = []
          then no_call (CheckboxAPI_error 400 ''Bad request''
                 (PDict [(''detail'', PStr ''login and password are required'')]))
          else CheckboxAPI_request w ''POST'' ''cashier/signin'' None None
                 (Some [(''login'', PStr l), (''password'', PStr p)])
      | _ \<Rightarrow> no_call (CheckboxAPI_error 400 ''Bad request''
                 (PDict [(''detail'', PStr ''login and password are required'')])))"

text \<open>\<^verbatim>\<open>open_shift\<close> (lines 103-110).\<close>

definition open_shift :: "env \<Rightarrow> string \<Rightarrow> string \<Rightarrow> run" where
  "open_shift w license_key access_token =
     CheckboxAPI_request w ''POST'' ''shifts''
       (Some [(''X-License-Key'', license_key), (''Authorization'', ''Bearer '' @ access_token)])
       None
       (Some [(''id'', PStr (uuid4 w))])"

text \<open>\<^verbatim>\<open>status_shift\<close> (lines 112-118).\<close>

definition status_shift :: "env \<Rightarrow> string \<Rightarrow> string \<Rightarrow> run" where
  "status_shift w access_token shift_id =
     CheckboxAPI_request w ''GET'' (''shifts/'' @ shift_id)
       (Some [(''Authorization'', ''Bearer '' @ access_token)]) None None"

text \<open>\<^verbatim>\<open>close_shift\<close> (lines 120-126).\<close>

definition close_shift :: "env \<Rightarrow> string \<Rightarrow> string \<Rightarrow> string \<Rightarrow> run" where
  "close_shift w license_key access_token shift_id =
     CheckboxAPI_request w ''POST'' (''shifts/'' @ shift_id @ ''/close'')
       (Some [(''X-License-Key'', license_key), (''Authorization'', ''Bearer '' @ access_token)])
       None None"

section \<open>The receipt builder\<close>

text \<open>
  One entry of \<open>goods\<close> (lines 145-154), the product identifier already formatted and
  the price already converted.
\<close>

definition good_entry :: "string \<Rightarrow> dict \<Rightarrow> int \<Rightarrow> pyval" where
  "good_entry ident p price =
     PDict [(''good'',
              PDict [(''code'', PStr (''order_product_'' @ ident)),
                     (''name'', dict_get p ''product_name'' PNone),
                     (''price'', PInt price)]),
            (''quantity'', PInt 1000),
            (''is_return'', PBool False),
            (''is_winnings_payout'', PBool False)]"

text \<open>
  The loop of lines 143-155, with the list \<open>goods\<close> built so far. The entries of the
  dictionary are evaluated in order: the f-string of line 147 first, the price of line
  149 after it. A product identifier that cannot be formatted, or a price that
  \<^verbatim>\<open>float\<close> or \<^verbatim>\<open>round\<close> rejects, ends the loop with the exception.
\<close>

fun goods_loop :: "env \<Rightarrow> dict list \<Rightarrow> pyval list \<Rightarrow> exn + pyval list" where
  "goods_loop w [] goods = Inr goods"
| "goods_loop w (p # ps) goods =
     (case py_str w (dict_get p ''order_product'' PNone) of
        Inl e \<Rightarrow> Inl e
      | Inr ident \<Rightarrow>
          (case minor_units w (dict_get p ''product_price'' (PInt 0)) of
             Inl e \<Rightarrow> Inl e
           | Inr price \<Rightarrow> goods_loop w ps (goods @ [good_entry ident p price])))"

text \<open>
  The single entry of \<open>payments\<close> (lines 163-171), its value already converted and the
  order id already formatted.
\<close>

definition payment_entry :: "string \<Rightarrow> dict \<Rightarrow> dict \<Rightarrow> int \<Rightarrow> pyval" where
  "payment_entry order client payment val =
     PDict [(''type'', dict_get payment ''payment_type'' PNone),
            (''value'', PInt val),
            (''label'', PStr (''Order #'' @ order)),
            (''payment_system'', dict_get payment ''payment_system'' PNone),
            (''rrn'', dict_get payment ''payment_system_invoice_id'' PNone),
            (''owner_name'', dict_get client ''full_name'' PNone),
            (''signature_required'', PBool False)]"

text \<open>
  The dictionary \<open>receipt\<close> of lines 157-174: the value of line 165 is converted before
  the f-string of line 166 formats the order id.
\<close>

definition receipt_dict ::
  "env \<Rightarrow> string \<Rightarrow> int \<Rightarrow> dict \<Rightarrow> pyval list \<Rightarrow> dict \<Rightarrow> exn + dict"
where
  "receipt_dict w cashier order_id client goods payment =
     (case minor_units w (dict_get payment ''total_amount'' (PInt 0)) of
        Inl e \<Rightarrow> Inl e
      | Inr val \<Rightarrow>
          (case py_str w (PInt order_id) of
             Inl e \<Rightarrow> Inl e
           | Inr order \<Rightarrow>
               Inr [(''id'', PStr (uuid4 w)),
                    (''cashier_name'', PStr cashier),
                    (''goods'', PList goods),
                    (''delivery'', PDict [(''phone'', dict_get client ''phone'' PNone)]),
                    (''payments'', PList [payment_entry order client payment val]),
                    (''rounding'', PBool False)]))"

text \<open>
  The name of the discount (line 186), a Ukrainian word of six Cyrillic letters
  (U+0417, U+043D, U+0438, U+0436, U+043A, U+0430), as the bytes of its UTF-8 encoding.
\<close>

definition discount_name :: string where
  "discount_name =
     [CHR 0xD0, CHR 0x97, CHR 0xD0, CHR 0xBD, CHR 0xD0, CHR 0xB8,
      CHR 0xD0, CHR 0xB6, CHR 0xD0, CHR 0xBA, CHR 0xD0, CHR 0xB0]"

text \<open>The value of the discount (lines 177-180).\<close>

definition discount_value_of :: "env \<Rightarrow> dict \<Rightarrow> exn + pyval" where
  "discount_value_of w d =
     (if dict_get d ''discount_type'' PNone = PStr ''VALUE''
      then (case minor_units w (dict_get d ''discount_amount'' (PInt 0)) of
              Inl e \<Rightarrow> Inl e
            | Inr v \<Rightarrow> Inr (PInt v))
      else Inr (dict_get d ''discount_amount'' PNone))"

text \<open>The entry of \<open>discounts\<close> (lines 182-187).\<close>

definition discount_entry :: "dict \<Rightarrow> pyval \<Rightarrow> pyval" where
  "discount_entry d discount_value =
     PDict [(''type'', PStr ''DISCOUNT''),
            (''mode'', dict_get d ''discount_type'' PNone),
            (''value'', discount_value),
            (''name'', PStr discount_name)]"

text \<open>The statement \<^verbatim>\<open>if discount: ...\<close> of lines 176-188, on the receipt built so far.\<close>

definition add_discount :: "env \<Rightarrow> dict option \<Rightarrow> dict \<Rightarrow> exn + dict" where
  "add_discount w discount receipt =
     (case discount of
        None \<Rightarrow> Inr receipt
      | Some d \<Rightarrow>
          if d = [] then Inr receipt
          else (case discount_value_of w d of
                  Inl e \<Rightarrow> Inl e
                | Inr discount_value \<Rightarrow>
                    Inr (AList.update ''discounts'' (PList [discount_entry d discount_value]) receipt)))"

text \<open>Lines 142-188: the receipt as it stands before the payment method is looked at.\<close>

definition build_receipt ::
  "env \<Rightarrow> string \<Rightarrow> int \<Rightarrow> dict \<Rightarrow> dict list \<Rightarrow> dict option \<Rightarrow> dict \<Rightarrow> exn + dict"
where
  "build_receipt w cashier order_id client products discount payment =
     (case goods_loop w products [] of
        Inl e \<Rightarrow> Inl e
      | Inr goods \<Rightarrow>
          (case receipt_dict w cashier order_id client goods payment of
             Inl e \<Rightarrow> Inl e
           | Inr receipt \<Rightarrow> add_discount w discount receipt))"

text \<open>\<^verbatim>\<open>create_receipt\<close> (lines 128-202).\<close>

definition create_receipt ::
  "env \<Rightarrow> string \<Rightarrow> string \<Rightarrow> int \<Rightarrow> dict \<Rightarrow> dict list \<Rightarrow> dict option \<Rightarrow> dict \<Rightarrow> string option \<Rightarrow> run"
where
  "create_receipt w access_token cashier order_id client products discount payment relation_id =
     (case build_receipt w cashier order_id client products discount payment of
        Inl e \<Rightarrow> no_call (Inl e)
      | Inr receipt \<Rightarrow>
          let payment_method = dict_get payment ''payment_method'' PNone;
              headers = [(''Authorization'', ''Bearer '' @ access_token)]
          in if payment_method = PStr ''PREPAYMENT''
             then CheckboxAPI_request w ''POST'' ''prepayment-receipts'' (Some headers) None
                    (Some receipt)
             else if payment_method = PStr ''POSTPAID''
             then (case relation_id of
                     None \<Rightarrow>
                       no_call (CheckboxAPI_error 400 ''Bad request''
                         (PDict [(''detail'', PStr ''relation_id is required for POSTPAID'')]))
                   | Some rid \<Rightarrow>
                       if rid = []
                       then no_call (CheckboxAPI_error 400 ''Bad request''
                              (PDict [(''detail'', PStr ''relation_id is required for POSTPAID'')]))
                       else CheckboxAPI_request w ''POST'' (''prepayment-receipts/'' @ rid)
                              (Some headers) None
                              (Some (filter (\<lambda>(k, v). k \<noteq> ''goods'') receipt)))
             else CheckboxAPI_request w ''POST'' ''receipts/sell'' (Some headers) None
                    (Some receipt))"

section \<open>The public operation surface\<close>

text \<open>A call of one of the five public methods, with its arguments.\<close>

datatype call =
    SignIn "string option" "string option"
  | OpenShift string string
  | StatusShift string string
  | CloseShift string string string
  | CreateReceipt string string int dict "dict list" "dict option" dict "string option"

fun perform :: "env \<Rightarrow> call \<Rightarrow> run" where
  "perform w (SignIn login password) = cashier_signin w login password"
| "perform w (OpenShift license_key access_token) = open_shift w license_key access_token"
| "perform w (StatusShift access_token shift_id) = status_shift w access_token shift_id"
| "perform w (CloseShift license_key access_token shift_id) =
     close_shift w license_key access_token shift_id"
| "perform w (CreateReceipt access_token cashier order_id client products discount payment relation_id) =
     create_receipt w access_token cashier order_id client products discount payment relation_id"

section \<open>Notions used to state the properties\<close>





definition failure_result :: "int \<Rightarrow> string \<Rightarrow> pyval \<Rightarrow> pyval \<Rightarrow> pyval" where
  "failure_result status error description data =
     PDict [(''success'', PBool False), (''status'', PInt status), (''error'', PStr error),
            (''error_description'', description), (''data'', data)]"

definition bad_request :: "string \<Rightarrow> pyval" where
  "bad_request detail =
     failure_result 400 ''Bad request'' (PStr ''Bad request'') (PDict [(''detail'', PStr detail)])"





text \<open>Whether \<^verbatim>\<open>int(round(float(x) * 100))\<close> yields a number.\<close>

definition convertible :: "env \<Rightarrow> pyval \<Rightarrow> bool" where
  "convertible w x = (case minor_units w x of Inl e \<Rightarrow> False | Inr n \<Rightarrow> True)"

text \<open>
  Whether every amount the receipt builder converts is convertible: the price of each
  product, the total of the payment and, for a discount that is taken into account and
  has the type \<^verbatim>\<open>"VALUE"\<close>, its amount.
\<close>

definition money_ok :: "env \<Rightarrow> dict list \<Rightarrow> dict option \<Rightarrow> dict \<Rightarrow> bool" where
  "money_ok w products discount payment =
     (list_all (\<lambda>p. convertible w (dict_get p ''product_price'' (PInt 0))) products
      \<and> convertible w (dict_get payment ''total_amount'' (PInt 0))
      \<and> (case discount of
            None \<Rightarrow> True
          | Some d \<Rightarrow>
              if d \<noteq> [] \<and> dict_get d ''discount_type'' PNone = PStr ''VALUE''
              then convertible w (dict_get d ''discount_amount'' (PInt 0)) else True))"

text \<open>Whether an f-string can format a value.\<close>

definition formattable :: "env \<Rightarrow> pyval \<Rightarrow> bool" where
  "formattable w x = (case py_str w x of Inl e \<Rightarrow> False | Inr s \<Rightarrow> True)"

text \<open>
  Whether everything the receipt builder formats can be formatted: the identifier
  \<open>order_product\<close> of each product and the order id.
\<close>

definition format_ok :: "env \<Rightarrow> int \<Rightarrow> dict list \<Rightarrow> bool" where
  "format_ok w order_id products =
     (list_all (\<lambda>p. formattable w (dict_get p ''order_product'' PNone)) products
      \<and> formattable w (PInt order_id))"


text \<open>
  The POST request \<^verbatim>\<open>create_receipt\<close> is expected to make: the endpoint under the
  versioned base URL, the session headers followed by the bearer token, and the body.
\<close>

definition post_request :: "env \<Rightarrow> string \<Rightarrow> string \<Rightarrow> dict \<Rightarrow> request" where
  "post_request w access_token endpoint body =
     \<lparr>req_method = ''POST'',
      req_url = api_url (cfg w) @ api_version (cfg w) @ ''/'' @ endpoint,
      req_headers = session_headers (cfg w) @ [(''Authorization'', ''Bearer '' @ access_token)],
      req_params = [],
      req_json = body,
      req_timeout = timeout_sec (cfg w)\<rparr>"

text \<open>What a request puts on the wire, as far as the properties below speak of it.\<close>

definition wire :: "request \<Rightarrow> string \<times> string \<times> dict" where
  "wire q = (req_method q, req_url q, req_json q)"

section \<open>An environment for the examples\<close>

text \<open>
  The examples run the client with the default configuration against a collaborator
  that gives the same answer to every request. Formatting is spelled out for the values
  the examples format (\<^verbatim>\<open>None\<close>, Booleans, integers and strings), with the limit of
  4300 digits that Python 3.11 puts on the conversion of an integer; no example passes
  a string to \<^verbatim>\<open>float\<close>.
\<close>

definition int_max_str_digits :: nat where
  "int_max_str_digits = 4300"

fun dec :: "nat \<Rightarrow> string" where
  "dec n = (if n < 10 then [char_of (48 + n)] else dec (n div 10) @ [char_of (48 + n mod 10)])"

fun demo_str :: "pyval \<Rightarrow> exn + string" where
  "demo_str PNone = Inr ''None''"
| "demo_str (PBool b) = Inr (if b then ''True'' else ''False'')"
| "demo_str (PInt i) =
     (if 10 ^ int_max_str_digits \<le> \<bar>i\<bar> then Inl ValueError
      else Inr (if i < 0 then ''-'' @ dec (nat (- i)) else dec (nat i)))"
| "demo_str (PStr s) = Inr s"
| "demo_str v = Inr ''<object>''"

definition demo_env :: "reply \<Rightarrow> env" where
  "demo_env rp =
     \<lparr>cfg = default_config,
      transport = (\<lambda>q. rp),
      uuid4 = ''1b4e28ba-2fa1-41d2-883f-0016d3cca427'',
      py_str = demo_str,
      float_of_str = (\<lambda>s. None)\<rparr>"

definition ok_reply :: reply where
  "ok_reply = Returned \<lparr>status_code = 200, resp_text = ''{}'', resp_json = Some (PDict [])\<rparr>"

text \<open>
  An order of one product at 19.99, paid in full by card, with the payment method left
  open; the receipt the builder makes of it for the cashier Anna and the order 17; a
  discount of 10 percent and a discount of 5.5 in currency.
\<close>

definition demo_client :: dict where
  "demo_client = [(''phone'', PStr ''+380441234567''), (''full_name'', PStr ''Olena K'')]"

definition demo_products :: "dict list" where
  "demo_products =
     [[(''order_product'', PInt 7), (''product_name'', PStr ''Tea''),
       (''product_price'', PFloat (round_double (1999 / 100)))]]"

definition demo_payment :: "string \<Rightarrow> dict" where
  "demo_payment m =
     [(''payment_type'', PStr ''CASHLESS''), (''total_amount'', PFloat (round_double (1999 / 100))),
      (''payment_system'', PStr ''VISA''), (''payment_system_invoice_id'', PStr ''R-1''),
      (''payment_method'', PStr m)]"

definition demo_receipt :: dict where
  "demo_receipt =
     [(''id'', PStr ''1b4e28ba-2fa1-41d2-883f-0016d3cca427''),
      (''cashier_name'', PStr ''Anna''),
      (''goods'',
        PList [PDict [(''good'', PDict [(''code'', PStr ''order_product_7''),
                                        (''name'', PStr ''Tea''),
                                        (''price'', PInt 1999)]),
                      (''quantity'', PInt 1000),
                      (''is_return'', PBool False),
                      (''is_winnings_payout'', PBool False)]]),
      (''delivery'', PDict [(''phone'', PStr ''+380441234567'')]),
      (''payments'',
        PList [PDict [(''type'', PStr ''CASHLESS''),
                      (''value'', PInt 1999),
                      (''label'', PStr ''Order #17''),
                      (''payment_system'', PStr ''VISA''),
                      (''rrn'', PStr ''R-1''),
                      (''owner_name'', PStr ''Olena K''),
                      (''signature_required'', PBool False)]]),
      (''rounding'', PBool False)]"

definition demo_percent :: dict where
  "demo_percent = [(''discount_type'', PStr ''PERCENT''), (''discount_amount'', PInt 10)]"


definition demo_discounts :: "string \<Rightarrow> int \<Rightarrow> string \<times> pyval" where
  "demo_discounts mode v =
     (''discounts'',
      PList [PDict [(''type'', PStr ''DISCOUNT''), (''mode'', PStr mode), (''value'', PInt v),
                    (''name'', PStr discount_name)]])"

section \<open>Facts about the float arithmetic\<close>

text \<open>
  \<^const>\<open>round_half_even\<close> yields a nearest integer, is the identity on integers, and
  sends a tie to the even neighbour.
\<close>

lemma round_half_even_nearest: "\<bar>of_int (round_half_even q) - q\<bar> \<le> 1 / 2"
proof -
  have "of_int \<lfloor>q\<rfloor> \<le> q" and "q < of_int \<lfloor>q\<rfloor> + 1"
    by linarith+
  then show ?thesis
    by (auto simp: round_half_even_def Let_def)
qed

lemma round_half_even_of_int: "round_half_even (of_int n) = n"
  by (simp add: round_half_even_def)

lemma round_half_even_tie:
  "round_half_even (of_int n + 1 / 2) = (if even n then n else n + 1)"
proof -
  have "\<lfloor>rat_of_int n + 1 / 2\<rfloor> = n" by linarith
  then show ?thesis by (simp add: round_half_even_def Let_def)
qed

lemma pow2_pos: "0 < pow2 k"
  by (simp add: pow2_def)

lemma pow2_powi: "pow2 k = 2 powi k"
  by (simp add: pow2_def power_int_def field_simps)

lemma pow2_mono: "a \<le> b \<Longrightarrow> pow2 a \<le> pow2 b"
  by (simp add: pow2_powi power_int_increasing)

text \<open>\<^const>\<open>floor_log2\<close> is the binary exponent of a positive rational.\<close>

lemma floor_log2_bounds:
  assumes "0 < q"
  shows "pow2 (floor_log2 q) \<le> q \<and> q < pow2 (floor_log2 q + 1)"
proof (cases "1 \<le> q")
  case True
  define n where "n = \<lfloor>q\<rfloor>"
  have n1: "1 \<le> n" using True by (simp add: n_def le_floor_iff)
  have nq: "of_int n \<le> q" "q < of_int n + 1" unfolding n_def by linarith+
  from bitlen_bounds [of n] n1
  have b: "2 ^ nat (bitlen n - 1) \<le> n" "n < 2 ^ nat (bitlen n)" by simp_all
  have k1: "1 \<le> bitlen n" using n1 by (simp add: bitlen_alt_def)
  have lo: "(2::rat) ^ nat (bitlen n - 1) \<le> of_int n"
  proof -
    have "rat_of_int (2 ^ nat (bitlen n - 1)) \<le> of_int n"
      using b(1) by (simp only: of_int_le_iff)
    then show ?thesis by simp
  qed
  have hi: "of_int n + 1 \<le> (2::rat) ^ nat (bitlen n)"
  proof -
    from b(2) have "n + 1 \<le> 2 ^ nat (bitlen n)" by simp
    then have "rat_of_int (n + 1) \<le> of_int (2 ^ nat (bitlen n))"
      by (simp only: of_int_le_iff)
    then show ?thesis by simp
  qed
  have fl: "floor_log2 q = bitlen n - 1"
    using True by (simp add: floor_log2_def n_def)
  have p1: "pow2 (floor_log2 q) = 2 ^ nat (bitlen n - 1)"
    using k1 by (simp add: fl pow2_def)
  have p2: "pow2 (floor_log2 q + 1) = 2 ^ nat (bitlen n)"
    using k1 by (simp add: fl pow2_def)
  from lo hi nq show ?thesis unfolding p1 p2 by linarith
next
  case False
  then have q1: "q < 1" by simp
  define m where "m = \<lceil>1 / q\<rceil> - 1"
  have inv: "1 < 1 / q" using assms q1 by (simp add: field_simps)
  have m1: "1 \<le> m"
  proof -
    from inv have "1 < \<lceil>1 / q\<rceil>" by (simp add: less_ceiling_iff)
    then show ?thesis by (simp add: m_def)
  qed
  have mq: "of_int m < 1 / q" "1 / q \<le> of_int m + 1"
  proof -
    have "of_int \<lceil>1 / q\<rceil> - 1 < 1 / q" by linarith
    then show "of_int m < 1 / q" by (simp add: m_def)
    have "1 / q \<le> of_int \<lceil>1 / q\<rceil>" by linarith
    then show "1 / q \<le> of_int m + 1" by (simp add: m_def)
  qed
  from bitlen_bounds [of m] m1
  have b: "2 ^ nat (bitlen m - 1) \<le> m" "m < 2 ^ nat (bitlen m)" by simp_all
  have k1: "1 \<le> bitlen m" using m1 by (simp add: bitlen_alt_def)
  have lo: "(2::rat) ^ nat (bitlen m - 1) \<le> of_int m"
  proof -
    have "rat_of_int (2 ^ nat (bitlen m - 1)) \<le> of_int m"
      using b(1) by (simp only: of_int_le_iff)
    then show ?thesis by simp
  qed
  have hi: "of_int m + 1 \<le> (2::rat) ^ nat (bitlen m)"
  proof -
    from b(2) have "m + 1 \<le> 2 ^ nat (bitlen m)" by simp
    then have "rat_of_int (m + 1) \<le> of_int (2 ^ nat (bitlen m))"
      by (simp only: of_int_le_iff)
    then show ?thesis by simp
  qed
  have fl: "floor_log2 q = - bitlen m"
    using False by (simp add: floor_log2_def m_def)
  have mpos: "(0::rat) < of_int m" using m1 by simp
  have lower: "1 / 2 ^ nat (bitlen m) \<le> q"
  proof -
    from mq(2) hi have "1 / q \<le> 2 ^ nat (bitlen m)" by linarith
    with assms show ?thesis by (simp add: field_simps)
  qed
  have upper: "q < 1 / 2 ^ nat (bitlen m - 1)"
  proof -
    from mq(1) lo have "2 ^ nat (bitlen m - 1) < 1 / q" by linarith
    with assms show ?thesis by (simp add: field_simps)
  qed
  have p1: "pow2 (floor_log2 q) = 1 / 2 ^ nat (bitlen m)"
    using k1 by (simp add: fl pow2_def)
  have p2: "pow2 (floor_log2 q + 1) = 1 / 2 ^ nat (bitlen m - 1)"
  proof (cases "bitlen m = 1")
    case True
    then show ?thesis by (simp add: fl pow2_def)
  next
    case False
    with k1 have "2 \<le> bitlen m" by simp
    then have "\<not> 0 \<le> - bitlen m + 1" and "nat (- (- bitlen m + 1)) = nat (bitlen m - 1)"
      by simp_all
    then show ?thesis by (simp add: fl pow2_def)
  qed
  from lower upper show ?thesis unfolding p1 p2 by simp
qed

text \<open>The result of rounding is within half a unit in the last place.\<close>

lemma round_double_error:
  assumes "round_double q = Finite v"
  shows "\<bar>v - q\<bar> \<le> pow2 (max (floor_log2 \<bar>q\<bar> - 52) (- 1074)) / 2"
proof (cases "q = 0")
  case True
  with assms show ?thesis by (simp add: round_double_def pow2_pos less_imp_le)
next
  case False
  define e where "e = max (floor_log2 \<bar>q\<bar> - 52) (- 1074)"
  define x where "x = \<bar>q\<bar> / pow2 e"
  define u where "u = of_int (round_half_even x) * pow2 e"
  have pe: "0 < pow2 e" by (rule pow2_pos)
  have rd: "round_double q =
      (if pow2 1024 \<le> u then (if 0 < q then PosInf else NegInf)
       else Finite (if 0 < q then u else - u))"
    by (simp only: round_double_def Let_def e_def x_def u_def False if_False)
  from assms have v: "v = (if 0 < q then u else - u)"
    unfolding rd by (simp split: if_splits)
  have "\<bar>u - \<bar>q\<bar>\<bar> = \<bar>of_int (round_half_even x) - x\<bar> * pow2 e"
  proof -
    have "u - \<bar>q\<bar> = (of_int (round_half_even x) - x) * pow2 e"
      using pe by (simp add: u_def x_def field_simps)
    then show ?thesis using pe by (simp add: abs_mult)
  qed
  also have "\<dots> \<le> (1 / 2) * pow2 e"
    using round_half_even_nearest [of x] pe by (simp add: mult_right_mono)
  finally have "\<bar>u - \<bar>q\<bar>\<bar> \<le> pow2 e / 2" by simp
  moreover have "\<bar>v - q\<bar> = \<bar>u - \<bar>q\<bar>\<bar>"
    using False by (auto simp: v)
  ultimately show ?thesis by (simp add: e_def)
qed

text \<open>An integer below \<open>2^53\<close> in absolute value is a float.\<close>

lemma round_double_of_int:
  assumes "\<bar>n\<bar> < 2 ^ 53"
  shows "round_double (of_int n) = Finite (of_int n)"
proof (cases "n = 0")
  case True
  then show ?thesis by (simp add: round_double_def)
next
  case False
  define a where "a = \<bar>rat_of_int n\<bar>"
  define e where "e = max (floor_log2 a - 52) (- 1074)"
  have a1: "1 \<le> a"
  proof -
    from False have "1 \<le> \<bar>n\<bar>" by simp
    then have "rat_of_int 1 \<le> of_int \<bar>n\<bar>" by (simp only: of_int_le_iff)
    then show ?thesis by (simp add: a_def)
  qed
  have a53: "a < 2 ^ 53"
  proof -
    from assms have "rat_of_int \<bar>n\<bar> < of_int (2 ^ 53)" by (simp only: of_int_less_iff)
    then show ?thesis by (simp add: a_def)
  qed
  from floor_log2_bounds [of a] a1
  have fb: "pow2 (floor_log2 a) \<le> a" "a < pow2 (floor_log2 a + 1)" by simp_all
  have f52: "floor_log2 a \<le> 52"
  proof (rule ccontr)
    assume "\<not> floor_log2 a \<le> 52"
    then have "53 \<le> floor_log2 a" by simp
    then have "pow2 53 \<le> pow2 (floor_log2 a)" by (rule pow2_mono)
    with fb(1) a53 show False by (simp add: pow2_def)
  qed
  then have e0: "e \<le> 0" and e1074: "- 1074 \<le> e" by (simp_all add: e_def)
  have pe: "pow2 e = 1 / 2 ^ nat (- e)"
    using e0 by (cases "e = 0") (simp_all add: pow2_def)
  have x: "a / pow2 e = of_int (\<bar>n\<bar> * 2 ^ nat (- e))"
    by (simp add: pe a_def)
  have r: "round_half_even (a / pow2 e) = \<bar>n\<bar> * 2 ^ nat (- e)"
    unfolding x by (rule round_half_even_of_int)
  have u: "of_int (round_half_even (a / pow2 e)) * pow2 e = a"
    unfolding r by (simp add: pe a_def)
  have small: "\<not> pow2 1024 \<le> a"
  proof -
    have "(2::rat) ^ 53 \<le> 2 ^ 1024" by (rule power_increasing) simp_all
    with a53 show ?thesis by (simp add: pow2_def)
  qed
  have nz: "rat_of_int n \<noteq> 0" using False by simp
  have rd: "round_double (of_int n) =
      (if pow2 1024 \<le> of_int (round_half_even (a / pow2 e)) * pow2 e
       then (if 0 < rat_of_int n then PosInf else NegInf)
       else Finite (if 0 < rat_of_int n then of_int (round_half_even (a / pow2 e)) * pow2 e
                    else - (of_int (round_half_even (a / pow2 e)) * pow2 e)))"
    by (simp only: round_double_def Let_def a_def e_def nz if_False)
  show ?thesis
    unfolding rd u using small by (auto simp: a_def)
qed

text \<open>An integer amount is converted exactly, as long as its hundredfold is below \<open>2^53\<close>.\<close>

lemma minor_units_int:
  assumes "\<bar>i\<bar> * 100 < 2 ^ 53"
  shows "minor_units w (PInt i) = Inr (i * 100)"
proof -
  from assms have small: "\<bar>i\<bar> < 2 ^ 53" and prod: "\<bar>i * 100\<bar> < 2 ^ 53"
    by (simp_all add: abs_mult)
  have "fmul (Finite (of_int i)) (Finite 100) = round_double (of_int (i * 100))"
    by simp
  also have "\<dots> = Finite (of_int (i * 100))"
    using prod by (rule round_double_of_int)
  finally have "py_round (fmul (Finite (of_int i)) (Finite 100)) = Inr (i * 100)"
    by (simp only: py_round.simps round_half_even_of_int)
  then show ?thesis
    by (simp add: minor_units_def round_double_of_int [OF small] del: fmul.simps)
qed

section \<open>Basic facts about the normalizer\<close>

lemma upper_POST: "upper ''POST'' = ''POST''"
  by code_simp

lemma upper_GET: "upper ''GET'' = ''GET''"
  by code_simp

lemma request_run:
  "CheckboxAPI_request w m ep h p b =
     \<lparr>sent = [build_request w m ep h p b],
      outcome = try_block (transport w (build_request w m ep h p b))\<rparr>"
  by (simp add: CheckboxAPI_request_def Let_def)

lemma error_dict:
  "CheckboxAPI_error st err (PDict d) =
     Inr (failure_result st err (py_or (dict_get d ''message'' PNone) (PStr err)) (PDict d))"
  by (cases d) (simp_all add: CheckboxAPI_error_def py_or_def failure_result_def dict_get_def)


lemma error_bad_request:
  "CheckboxAPI_error 400 ''Bad request'' (PDict [(''detail'', PStr m)]) = Inr (bad_request m)"
  by (simp add: error_dict bad_request_def dict_get_def py_or_def)



text \<open>
  Every public operation either ends before any request is made, or makes exactly one
  request and ends as \<^const>\<open>try_block\<close> does on the answer to it.
\<close>

lemma perform_cases:
  "sent (perform w c) = []
   \<or> (\<exists>q. sent (perform w c) = [q] \<and> outcome (perform w c) = try_block (transport w q))"
proof (cases c)
  case (SignIn login password)
  then show ?thesis
    by (simp add: cashier_signin_def request_run no_call_def split: option.splits)
next
  case (CreateReceipt tok cashier oid client products discount payment rid)
  then show ?thesis
    by (simp add: create_receipt_def request_run no_call_def Let_def split: sum.splits option.splits)
qed (simp_all add: open_shift_def status_shift_def close_shift_def request_run)


lemma try_block_network:
  "try_block (Raised (RequestException m)) =
     Inr (failure_result 400 ''Network error'' (PStr ''Network error'') (PDict [(''detail'', PStr m)]))"
  by (simp add: try_block_def error_dict dict_get_def py_or_def)





section \<open>Basic facts about the receipt builder\<close>

lemma map_of_filter_key:
  "map_of (filter (\<lambda>(k, v). k \<noteq> g) d) k = (if k = g then None else map_of d k)"
  by (induction d) auto


lemma goods_loop_ok:
  "(\<exists>g. goods_loop w ps acc = Inr g) =
     (list_all (\<lambda>p. formattable w (dict_get p ''order_product'' PNone)) ps
      \<and> list_all (\<lambda>p. convertible w (dict_get p ''product_price'' (PInt 0))) ps)"
  by (induction ps arbitrary: acc)
    (auto simp: convertible_def formattable_def split: sum.splits)

lemma receipt_dict_ok:
  "(\<exists>r. receipt_dict w cashier oid client goods payment = Inr r) =
     (convertible w (dict_get payment ''total_amount'' (PInt 0)) \<and> formattable w (PInt oid))"
  by (auto simp: receipt_dict_def convertible_def formattable_def split: sum.splits)

lemma add_discount_ok:
  "(\<exists>r. add_discount w discount base = Inr r) =
     (case discount of None \<Rightarrow> True
      | Some d \<Rightarrow> if d \<noteq> [] \<and> dict_get d ''discount_type'' PNone = PStr ''VALUE''
                  then convertible w (dict_get d ''discount_amount'' (PInt 0)) else True)"
  by (auto simp: add_discount_def discount_value_of_def convertible_def split: option.splits sum.splits)

text \<open>
  The receipt is built exactly when every amount that is converted is convertible and
  everything that is formatted can be formatted.
\<close>

lemma build_receipt_ok:
  "(\<exists>r. build_receipt w cashier oid client products discount payment = Inr r) =
     (money_ok w products discount payment \<and> format_ok w oid products)"
proof (cases "goods_loop w products []")
  case (Inl e)
  then have "\<not> (list_all (\<lambda>p. formattable w (dict_get p ''order_product'' PNone)) products
      \<and> list_all (\<lambda>p. convertible w (dict_get p ''product_price'' (PInt 0))) products)"
    using goods_loop_ok [of w products "[]"] by simp
  with Inl show ?thesis by (auto simp: build_receipt_def money_ok_def format_ok_def)
next
  case goods: (Inr goods)
  then have all: "list_all (\<lambda>p. formattable w (dict_get p ''order_product'' PNone)) products"
      "list_all (\<lambda>p. convertible w (dict_get p ''product_price'' (PInt 0))) products"
    using goods_loop_ok [of w products "[]"] by auto
  show ?thesis
  proof (cases "receipt_dict w cashier oid client goods payment")
    case (Inl e)
    then have "\<not> (convertible w (dict_get payment ''total_amount'' (PInt 0))
        \<and> formattable w (PInt oid))"
      using receipt_dict_ok [of w cashier oid client goods payment] by simp
    with Inl goods show ?thesis by (auto simp: build_receipt_def money_ok_def format_ok_def)
  next
    case (Inr base)
    then have "convertible w (dict_get payment ''total_amount'' (PInt 0))"
        "formattable w (PInt oid)"
      using receipt_dict_ok [of w cashier oid client goods payment] by auto
    with Inr goods all show ?thesis
      using add_discount_ok [of w discount base]
      by (simp add: build_receipt_def money_ok_def format_ok_def)
  qed
qed

text \<open>The parts of a receipt that was built.\<close>

lemma build_receipt_Inr:
  assumes "build_receipt w cashier oid client products discount payment = Inr receipt"
  obtains goods base where
    "goods_loop w products [] = Inr goods"
    "receipt_dict w cashier oid client goods payment = Inr base"
    "add_discount w discount base = Inr receipt"
  using assms by (auto simp: build_receipt_def split: sum.splits)

lemma receipt_dict_Inr:
  assumes "receipt_dict w cashier oid client goods payment = Inr base"
  obtains total order where
    "minor_units w (dict_get payment ''total_amount'' (PInt 0)) = Inr total"
    "py_str w (PInt oid) = Inr order"
    "base = [(''id'', PStr (uuid4 w)), (''cashier_name'', PStr cashier), (''goods'', PList goods),
             (''delivery'', PDict [(''phone'', dict_get client ''phone'' PNone)]),
             (''payments'', PList [payment_entry order client payment total]),
             (''rounding'', PBool False)]"
  using assms by (auto simp: receipt_dict_def split: sum.splits)

lemma receipt_has_goods:
  assumes "build_receipt w cashier oid client products discount payment = Inr receipt"
  shows "has_key receipt ''goods''"
proof -
  from assms obtain goods base where
    base: "receipt_dict w cashier oid client goods payment = Inr base"
    and disc: "add_discount w discount base = Inr receipt"
    by (rule build_receipt_Inr)
  from base obtain total order where
    b: "base = [(''id'', PStr (uuid4 w)), (''cashier_name'', PStr cashier), (''goods'', PList goods),
             (''delivery'', PDict [(''phone'', dict_get client ''phone'' PNone)]),
             (''payments'', PList [payment_entry order client payment total]),
             (''rounding'', PBool False)]"
    by (rule receipt_dict_Inr)
  from disc show ?thesis
    unfolding b
    by (auto simp: add_discount_def has_key_def split: option.splits if_splits sum.splits)
qed

lemma receipt_discounts:
  assumes "build_receipt w cashier oid client products discount payment = Inr receipt"
  shows "map_of receipt ''discounts'' =
     (case discount of None \<Rightarrow> None
      | Some d \<Rightarrow>
          if d = [] then None
          else (case discount_value_of w d of
                  Inl e \<Rightarrow> None
                | Inr v \<Rightarrow> Some (PList [discount_entry d v])))"
proof -
  from assms obtain goods base where
    base: "receipt_dict w cashier oid client goods payment = Inr base"
    and disc: "add_discount w discount base = Inr receipt"
    by (rule build_receipt_Inr)
  from base obtain total order where
    b: "base = [(''id'', PStr (uuid4 w)), (''cashier_name'', PStr cashier), (''goods'', PList goods),
             (''delivery'', PDict [(''phone'', dict_get client ''phone'' PNone)]),
             (''payments'', PList [payment_entry order client payment total]),
             (''rounding'', PBool False)]"
    by (rule receipt_dict_Inr)
  from disc show ?thesis
    unfolding b
    by (auto simp: add_discount_def split: option.splits if_splits sum.splits)
qed


text \<open>What \<^const>\<open>create_receipt\<close> sends, by payment method.\<close>

lemma create_receipt_Inl:
  "build_receipt w cashier oid client products discount payment = Inl e \<Longrightarrow>
     create_receipt w tok cashier oid client products discount payment rid = no_call (Inl e)"
  by (simp add: create_receipt_def)

lemma create_receipt_sent:
  assumes "build_receipt w cashier oid client products discount payment = Inr receipt"
  shows "sent (create_receipt w tok cashier oid client products discount payment rid) =
     (if dict_get payment ''payment_method'' PNone = PStr ''PREPAYMENT''
      then [post_request w tok ''prepayment-receipts'' receipt]
      else if dict_get payment ''payment_method'' PNone = PStr ''POSTPAID''
      then (case rid of None \<Rightarrow> []
            | Some r \<Rightarrow> if r = [] then []
                        else [post_request w tok (''prepayment-receipts/'' @ r)
                                (filter (\<lambda>(k, v). k \<noteq> ''goods'') receipt)])
      else [post_request w tok ''receipts/sell'' receipt])"
  using assms
  by (simp add: create_receipt_def request_run no_call_def lstrip_slash_def
      build_request_def post_request_def upper_POST dict_merge_def session_headers_def
      Let_def split: option.splits)

lemma sent_body_discounts:
  assumes "build_receipt w cashier oid client products discount payment = Inr receipt"
    and "q \<in> set (sent (create_receipt w tok cashier oid client products discount payment rid))"
  shows "map_of (req_json q) ''discounts'' = map_of receipt ''discounts''"
  using assms(2) unfolding create_receipt_sent [OF assms(1)]
  by (auto simp: post_request_def map_of_filter_key split: if_splits option.splits)

lemma sent_needs_receipt:
  assumes "q \<in> set (sent (create_receipt w tok cashier oid client products discount payment rid))"
  obtains receipt where "build_receipt w cashier oid client products discount payment = Inr receipt"
proof (cases "build_receipt w cashier oid client products discount payment")
  case (Inl e)
  with assms show ?thesis by (simp add: create_receipt_Inl no_call_def)
next
  case (Inr receipt)
  then show ?thesis by (rule that)
qed

section \<open>The examples, evaluated\<close>

text \<open>
  The float nearest to 19.99 is \<open>5626684784446013 / 2^48\<close>; its product with 100 is
  rounded to the float \<open>1998.9999999999998\<close> (\<open>8791694975696895 / 2^42\<close>), and
  \<^verbatim>\<open>round\<close> takes that to 1999.
\<close>

lemma double_19_99: "round_double (1999 / 100) = Finite (5626684784446013 / 281474976710656)"
  by code_simp

lemma times_100_19_99:
  "fmul (Finite (5626684784446013 / 281474976710656)) (Finite 100) =
     Finite (8791694975696895 / 4398046511104)"
  by code_simp

lemma round_19_99: "round_half_even (8791694975696895 / 4398046511104) = 1999"
  by code_simp

lemma minor_units_19_99: "minor_units w (PFloat (round_double (1999 / 100))) = Inr 1999"
  by (simp add: minor_units_def double_19_99 times_100_19_99 round_19_99 del: fmul.simps)





text \<open>
  The amount 10.005: the float nearest to it, times 100, is the float
  \<open>1000.5000000000001\<close>, which \<^verbatim>\<open>round\<close> takes to 1001 (not a tie).
\<close>

lemma minor_units_10_005: "minor_units w (PFloat (round_double (10005 / 1000))) = Inr 1001"
proof -
  have "round_double (10005 / 1000) = Finite (5632314283980227 / 562949953421312)"
    by code_simp
  moreover have "py_round (fmul (Finite (5632314283980227 / 562949953421312)) (Finite 100)) = Inr 1001"
    by code_simp
  ultimately show ?thesis by (simp add: minor_units_def del: fmul.simps)
qed

text \<open>An integer of one or two digits is far below the limit of 4300 digits.\<close>

lemma small_int_below_limit:
  assumes "\<bar>i::int\<bar> < 100"
  shows "\<not> 10 ^ int_max_str_digits \<le> \<bar>i\<bar>"
proof -
  have "(10::int) ^ 2 \<le> 10 ^ int_max_str_digits"
    by (rule power_increasing) (simp_all add: int_max_str_digits_def)
  moreover have "(10::int) ^ 2 = 100"
    by simp
  ultimately have "100 \<le> (10::int) ^ int_max_str_digits"
    by (simp only:)
  with assms have "\<bar>i\<bar> < 10 ^ int_max_str_digits"
    by (rule less_le_trans)
  then show ?thesis
    by (simp only: not_le)
qed

lemma demo_str_17: "demo_str (PInt 17) = Inr ''17''"
proof -
  have "dec 17 = ''17''"
    by code_simp
  moreover have "\<not> 10 ^ int_max_str_digits \<le> \<bar>17::int\<bar>"
    by (rule small_int_below_limit) simp
  ultimately show ?thesis
    by (simp del: dec.simps)
qed

lemma demo_str_7: "demo_str (PInt 7) = Inr ''7''"
proof -
  have "dec 7 = ''7''"
    by code_simp
  moreover have "\<not> 10 ^ int_max_str_digits \<le> \<bar>7::int\<bar>"
    by (rule small_int_below_limit) simp
  ultimately show ?thesis
    by (simp del: dec.simps)
qed

lemma demo_build:
  "build_receipt (demo_env rp) ''Anna'' 17 demo_client demo_products None (demo_payment m) =
     Inr demo_receipt"
  by (simp add: build_receipt_def demo_products_def demo_payment_def demo_client_def
      demo_receipt_def dict_get_def minor_units_19_99 receipt_dict_def add_discount_def
      good_entry_def payment_entry_def demo_env_def demo_str_17 demo_str_7 del: demo_str.simps)

lemma demo_build_discount:
  "build_receipt (demo_env rp) ''Anna'' 17 demo_client demo_products discount (demo_payment m) =
     add_discount (demo_env rp) discount demo_receipt"
  using demo_build [of rp m] by (auto simp: build_receipt_def add_discount_def split: sum.splits)

lemma demo_build_empty:
  "build_receipt (demo_env rp) ''Anna'' 17 demo_client demo_products (Some []) (demo_payment m) =
     Inr demo_receipt"
  by (simp add: demo_build_discount add_discount_def)

lemma demo_build_percent:
  "build_receipt (demo_env rp) ''Anna'' 17 demo_client demo_products (Some demo_percent) (demo_payment m) =
     Inr (demo_receipt @ [demo_discounts ''PERCENT'' 10])"
  by (simp add: demo_build_discount add_discount_def demo_percent_def discount_value_of_def
      dict_get_def discount_entry_def demo_receipt_def demo_discounts_def)


lemma demo_method: "dict_get (demo_payment m) ''payment_method'' PNone = PStr m"
  by (simp add: demo_payment_def dict_get_def)


lemma demo_inputs_ok:
  "money_ok (demo_env rp) demo_products None (demo_payment m)
   \<and> format_ok (demo_env rp) 17 demo_products"
  using build_receipt_ok [of "demo_env rp" "''Anna''" 17 demo_client demo_products None "demo_payment m"]
  by (simp add: demo_build)

text \<open>
  An order id of 4301 digits: the products are formatted and converted, the total is
  converted, and the f-string of line 166 raises \<^verbatim>\<open>ValueError\<close>, which reaches the caller
  before any request is made.
\<close>

lemma demo_str_too_long: "demo_str (PInt (10 ^ int_max_str_digits)) = Inl ValueError"
  by simp

lemma order_id_too_long:
  "create_receipt (demo_env rp) ''token'' ''Anna'' (10 ^ int_max_str_digits) demo_client
      demo_products None (demo_payment m) rid = \<lparr>sent = [], outcome = Inl ValueError\<rparr>"
proof -
  have "build_receipt (demo_env rp) ''Anna'' (10 ^ int_max_str_digits) demo_client
      demo_products None (demo_payment m) = Inl ValueError"
    by (simp add: build_receipt_def demo_products_def demo_payment_def demo_client_def
        dict_get_def minor_units_19_99 receipt_dict_def good_entry_def demo_env_def
        demo_str_7 demo_str_too_long del: demo_str.simps)
  then show ?thesis
    by (simp add: create_receipt_Inl no_call_def)
qed

section \<open>Properties of the normalizer\<close>






text \<open>
  Claim C4. Whenever a public operation has made its request and the HTTP collaborator
  has raised a \<^verbatim>\<open>RequestException\<close> other than an \<^verbatim>\<open>HTTPError\<close> (no response was
  obtained), the operation returns the Result with \<open>success = false\<close>, \<open>status = 400\<close>,
  \<open>error\<close> and \<open>error_description\<close> both \<open>"Network error"\<close>, and
  \<open>data = {detail: message of the exception}\<close>.
\<close>

theorem network_failure_result:
  assumes "sent (perform w c) = [q]" and "transport w q = Raised (RequestException m)"
  shows "outcome (perform w c) =
           Inr (PDict [(''success'', PBool False), (''status'', PInt 400),
                       (''error'', PStr ''Network error''),
                       (''error_description'', PStr ''Network error''),
                       (''data'', PDict [(''detail'', PStr m)])])"
proof -
  from perform_cases [of w c] assms
  have "outcome (perform w c) = try_block (Raised (RequestException m))" by auto
  then show ?thesis by (simp add: try_block_network failure_result_def)
qed

text \<open>Opening a shift while the connection is refused.\<close>

theorem network_failure_result_witness:
  "sent (perform (demo_env (Raised (RequestException ''Connection refused''))) (OpenShift ''key'' ''token'')) =
     [build_request (demo_env (Raised (RequestException ''Connection refused''))) ''POST'' ''shifts''
        (Some [(''X-License-Key'', ''key''), (''Authorization'', ''Bearer token'')]) None
        (Some [(''id'', PStr ''1b4e28ba-2fa1-41d2-883f-0016d3cca427'')])]
   \<and> outcome (perform (demo_env (Raised (RequestException ''Connection refused''))) (OpenShift ''key'' ''token'')) =
       Inr (PDict [(''success'', PBool False), (''status'', PInt 400),
                   (''error'', PStr ''Network error''),
                   (''error_description'', PStr ''Network error''),
                   (''data'', PDict [(''detail'', PStr ''Connection refused'')])])"
  using network_failure_result
    [of "demo_env (Raised (RequestException ''Connection refused''))" "OpenShift ''key'' ''token''"
        "build_request (demo_env (Raised (RequestException ''Connection refused''))) ''POST'' ''shifts''
           (Some [(''X-License-Key'', ''key''), (''Authorization'', ''Bearer token'')]) None
           (Some [(''id'', PStr ''1b4e28ba-2fa1-41d2-883f-0016d3cca427'')])"
        "''Connection refused''"]
  by (simp add: open_shift_def request_run demo_env_def)

section \<open>Properties of sign-in\<close>

text \<open>
  Claim C8. A sign-in whose login or password is empty (absent or the empty string)
  makes no request and returns the Result with \<open>success = false\<close>, \<open>status = 400\<close>,
  \<open>error = "Bad request"\<close> and the message about the missing fields under
  \<open>data.detail\<close>.
\<close>

theorem signin_requires_credentials:
  assumes "login = None \<or> login = Some [] \<or> password = None \<or> password = Some []"
  shows "sent (cashier_signin w login password) = []
       \<and> outcome (cashier_signin w login password) =
           Inr (PDict [(''success'', PBool False), (''status'', PInt 400),
                       (''error'', PStr ''Bad request''),
                       (''error_description'', PStr ''Bad request''),
                       (''data'', PDict [(''detail'', PStr ''login and password are required'')])])"
  using assms
  by (auto simp: cashier_signin_def no_call_def error_bad_request bad_request_def
      failure_result_def split: option.splits)

text \<open>A sign-in with a login and the empty password.\<close>

theorem signin_requires_credentials_witness:
  "(Some ''cashier'' = None \<or> Some ''cashier'' = Some [] \<or> Some '''' = (None :: string option) \<or> Some '''' = Some [])
   \<and> sent (cashier_signin (demo_env ok_reply) (Some ''cashier'') (Some '''')) = []
   \<and> outcome (cashier_signin (demo_env ok_reply) (Some ''cashier'') (Some '''')) =
       Inr (PDict [(''success'', PBool False), (''status'', PInt 400),
                   (''error'', PStr ''Bad request''),
                   (''error_description'', PStr ''Bad request''),
                   (''data'', PDict [(''detail'', PStr ''login and password are required'')])])"
  using signin_requires_credentials [of "Some ''cashier''" "Some ''''" "demo_env ok_reply"]
  by simp

section \<open>Properties of the receipt builder\<close>



text \<open>
  Claim C5 says that a call with the payment method \<^verbatim>\<open>"POSTPAID"\<close> and a relation id
  posts to \<^verbatim>\<open>prepayment-receipts/<relation_id>\<close>. With the empty string as relation id
  nothing is posted: line 197 treats it like a missing one.
\<close>

theorem postpaid_relation_id_counterexample:
  "sent (create_receipt (demo_env ok_reply) ''token'' ''Anna'' 17 demo_client demo_products None
      (demo_payment ''POSTPAID'') (Some '''')) = []
   \<and> outcome (create_receipt (demo_env ok_reply) ''token'' ''Anna'' 17 demo_client demo_products None
      (demo_payment ''POSTPAID'') (Some '''')) =
       Inr (PDict [(''success'', PBool False), (''status'', PInt 400),
                   (''error'', PStr ''Bad request''),
                   (''error_description'', PStr ''Bad request''),
                   (''data'', PDict [(''detail'', PStr ''relation_id is required for POSTPAID'')])])"
  by (simp add: create_receipt_def demo_build demo_method no_call_def error_bad_request
      bad_request_def failure_result_def)

text \<open>
  Claim C5, as amended. For every call of \<^verbatim>\<open>create_receipt\<close> whose receipt is built (it
  has a \<open>goods\<close> field), the one request made is a POST that depends on the payment
  method: \<^verbatim>\<open>"PREPAYMENT"\<close> posts the receipt to \<^verbatim>\<open>prepayment-receipts\<close>;
  \<^verbatim>\<open>"POSTPAID"\<close> with a relation id that is not empty posts to
  \<^verbatim>\<open>prepayment-receipts/<relation_id>\<close> the receipt without its \<open>goods\<close> field, every
  other field unchanged; any other payment method posts the receipt to
  \<^verbatim>\<open>receipts/sell\<close>.
\<close>

theorem receipt_endpoint_by_payment_method:
  assumes "build_receipt w cashier order_id client products discount payment = Inr receipt"
  shows "has_key receipt ''goods''
       \<and> (dict_get payment ''payment_method'' PNone = PStr ''PREPAYMENT'' \<longrightarrow>
            map wire (sent (create_receipt w access_token cashier order_id client products discount
                              payment relation_id)) =
              [(''POST'', api_url (cfg w) @ api_version (cfg w) @ ''/prepayment-receipts'', receipt)])
       \<and> (dict_get payment ''payment_method'' PNone = PStr ''POSTPAID''
            \<and> relation_id = Some rid \<and> rid \<noteq> [] \<longrightarrow>
            map wire (sent (create_receipt w access_token cashier order_id client products discount
                              payment relation_id)) =
              [(''POST'', api_url (cfg w) @ api_version (cfg w) @ ''/prepayment-receipts/'' @ rid,
                filter (\<lambda>(k, v). k \<noteq> ''goods'') receipt)]
            \<and> (\<forall>k. map_of (filter (\<lambda>(k, v). k \<noteq> ''goods'') receipt) k =
                     (if k = ''goods'' then None else map_of receipt k)))
       \<and> (dict_get payment ''payment_method'' PNone \<noteq> PStr ''PREPAYMENT''
            \<and> dict_get payment ''payment_method'' PNone \<noteq> PStr ''POSTPAID'' \<longrightarrow>
            map wire (sent (create_receipt w access_token cashier order_id client products discount
                              payment relation_id)) =
              [(''POST'', api_url (cfg w) @ api_version (cfg w) @ ''/receipts/sell'', receipt)])"
  using receipt_has_goods [OF assms]
  by (simp add: create_receipt_sent [OF assms] map_of_filter_key wire_def post_request_def)

text \<open>The example order under the three payment methods.\<close>

theorem receipt_endpoint_by_payment_method_witness:
  "build_receipt (demo_env ok_reply) ''Anna'' 17 demo_client demo_products None (demo_payment ''PREPAYMENT'')
     = Inr demo_receipt
   \<and> map wire (sent (create_receipt (demo_env ok_reply) ''token'' ''Anna'' 17 demo_client demo_products
        None (demo_payment ''PREPAYMENT'') None)) =
       [(''POST'', ''https://api.checkbox.ua/api/v1/prepayment-receipts'', demo_receipt)]
   \<and> map wire (sent (create_receipt (demo_env ok_reply) ''token'' ''Anna'' 17 demo_client demo_products
        None (demo_payment ''POSTPAID'') (Some ''abc''))) =
       [(''POST'', ''https://api.checkbox.ua/api/v1/prepayment-receipts/abc'',
         filter (\<lambda>(k, v). k \<noteq> ''goods'') demo_receipt)]
   \<and> map fst (filter (\<lambda>(k, v). k \<noteq> ''goods'') demo_receipt) =
       [''id'', ''cashier_name'', ''delivery'', ''payments'', ''rounding'']
   \<and> map wire (sent (create_receipt (demo_env ok_reply) ''token'' ''Anna'' 17 demo_client demo_products
        None (demo_payment ''FULL'') None)) =
       [(''POST'', ''https://api.checkbox.ua/api/v1/receipts/sell'', demo_receipt)]"
proof -
  have b: "build_receipt (demo_env ok_reply) ''Anna'' 17 demo_client demo_products None (demo_payment m)
     = Inr demo_receipt" for m
    by (rule demo_build)
  have keys: "map fst (filter (\<lambda>(k, v). k \<noteq> ''goods'') demo_receipt) =
      [''id'', ''cashier_name'', ''delivery'', ''payments'', ''rounding'']"
    by (simp add: demo_receipt_def)
  have c: "api_url (cfg (demo_env ok_reply)) @ api_version (cfg (demo_env ok_reply)) =
      ''https://api.checkbox.ua/api/v1''"
    by (simp add: demo_env_def default_config_def)
  show ?thesis
    using receipt_endpoint_by_payment_method [OF b [of "''PREPAYMENT''"], of "''token''" None "''abc''"]
      receipt_endpoint_by_payment_method [OF b [of "''POSTPAID''"], of "''token''" "Some ''abc''" "''abc''"]
      receipt_endpoint_by_payment_method [OF b [of "''FULL''"], of "''token''" None "''abc''"]
    by (simp add: demo_method b keys c)
qed

text \<open>
  Claim C7 says that every call with the payment method \<^verbatim>\<open>"POSTPAID"\<close> and no relation
  id returns the Bad-request Result. The receipt is built before the relation id is
  looked at (lines 142-188 come before line 197), so a call whose total amount is
  \<^verbatim>\<open>None\<close> raises \<^verbatim>\<open>TypeError\<close> instead.
\<close>

theorem postpaid_bad_request_counterexample:
  "outcome (create_receipt (demo_env ok_reply) ''token'' ''Anna'' 17 demo_client demo_products None
      [(''payment_type'', PStr ''CASH''), (''total_amount'', PNone), (''payment_method'', PStr ''POSTPAID'')]
      None) = Inl TypeError"
proof -
  have "goods_loop (demo_env ok_reply) demo_products [] \<noteq> Inl e" for e
    using demo_build [of ok_reply "''FULL''"] by (auto simp: build_receipt_def)
  moreover have "minor_units (demo_env ok_reply) PNone = Inl TypeError"
    by (simp add: minor_units_def)
  ultimately show ?thesis
    by (simp add: create_receipt_def build_receipt_def receipt_dict_def dict_get_def no_call_def
        split: sum.splits)
qed

text \<open>
  Claim C7, as amended. A call of \<^verbatim>\<open>create_receipt\<close> with the payment method
  \<^verbatim>\<open>"POSTPAID"\<close> and no relation id (absent or the empty string) makes no request; and
  when the receipt is built, that is, when every amount of its inputs is convertible
  (\<^const>\<open>money_ok\<close>) and the order id and every product identifier can be formatted
  (\<^const>\<open>format_ok\<close>), it returns the Result with \<open>success = false\<close>, \<open>status = 400\<close>,
  \<open>error = "Bad request"\<close> and the message about the missing relation id under
  \<open>data.detail\<close>; when the receipt is not built, the exception that ended the building
  reaches the caller.
\<close>

theorem postpaid_requires_relation_id:
  assumes "dict_get payment ''payment_method'' PNone = PStr ''POSTPAID''"
    and "relation_id = None \<or> relation_id = Some []"
  shows "sent (create_receipt w access_token cashier order_id client products discount payment relation_id) = []
       \<and> (money_ok w products discount payment \<and> format_ok w order_id products \<longrightarrow>
            outcome (create_receipt w access_token cashier order_id client products discount payment relation_id) =
              Inr (PDict [(''success'', PBool False), (''status'', PInt 400),
                          (''error'', PStr ''Bad request''),
                          (''error_description'', PStr ''Bad request''),
                          (''data'', PDict [(''detail'', PStr ''relation_id is required for POSTPAID'')])]))
       \<and> (\<forall>e. build_receipt w cashier order_id client products discount payment = Inl e \<longrightarrow>
            outcome (create_receipt w access_token cashier order_id client products discount payment relation_id) =
              Inl e)"
proof (cases "build_receipt w cashier order_id client products discount payment")
  case (Inl e)
  then have "\<not> (money_ok w products discount payment \<and> format_ok w order_id products)"
    using build_receipt_ok [of w cashier order_id client products discount payment] by simp
  with Inl show ?thesis by (simp add: create_receipt_Inl no_call_def)
next
  case (Inr receipt)
  with assms show ?thesis
    by (auto simp: create_receipt_def no_call_def error_bad_request bad_request_def
        failure_result_def)
qed

text \<open>The example order, postpaid, without a relation id.\<close>

theorem postpaid_requires_relation_id_witness:
  "dict_get (demo_payment ''POSTPAID'') ''payment_method'' PNone = PStr ''POSTPAID''
   \<and> money_ok (demo_env ok_reply) demo_products None (demo_payment ''POSTPAID'')
   \<and> format_ok (demo_env ok_reply) 17 demo_products
   \<and> sent (create_receipt (demo_env ok_reply) ''token'' ''Anna'' 17 demo_client demo_products None
        (demo_payment ''POSTPAID'') None) = []
   \<and> outcome (create_receipt (demo_env ok_reply) ''token'' ''Anna'' 17 demo_client demo_products None
        (demo_payment ''POSTPAID'') None) =
       Inr (PDict [(''success'', PBool False), (''status'', PInt 400),
                   (''error'', PStr ''Bad request''),
                   (''error_description'', PStr ''Bad request''),
                   (''data'', PDict [(''detail'', PStr ''relation_id is required for POSTPAID'')])])"
proof -
  have h1: "dict_get (demo_payment ''POSTPAID'') ''payment_method'' PNone = PStr ''POSTPAID''"
    by (rule demo_method)
  have h2: "(None :: string option) = None \<or> (None :: string option) = Some []"
    by simp
  from postpaid_requires_relation_id [OF h1 h2, of "demo_env ok_reply" "''token''" "''Anna''" 17
      demo_client demo_products None]
    h1 demo_inputs_ok [of ok_reply "''POSTPAID''"]
  show ?thesis by blast
qed

text \<open>
  Claim C9 says that the receipt has a \<open>discounts\<close> field if and only if a discount was
  supplied. A discount that is the empty dictionary is supplied and gives no such field:
  line 176 tests the truth value of the discount.
\<close>

theorem empty_discount_counterexample:
  "build_receipt (demo_env ok_reply) ''Anna'' 17 demo_client demo_products (Some [])
      (demo_payment ''FULL'') = Inr demo_receipt
   \<and> map fst demo_receipt =
       [''id'', ''cashier_name'', ''goods'', ''delivery'', ''payments'', ''rounding'']"
  by (simp add: demo_build_empty) (simp add: demo_receipt_def)

text \<open>
  Claim C9, as amended. The receipt that is built, and the body of every request
  \<^verbatim>\<open>create_receipt\<close> makes, has a \<open>discounts\<close> field if and only if a discount was
  supplied that is not the empty dictionary.
\<close>

theorem discounts_present_iff_nonempty:
  "(\<forall>receipt. build_receipt w cashier order_id client products discount payment = Inr receipt \<longrightarrow>
       has_key receipt ''discounts'' = (discount \<noteq> None \<and> discount \<noteq> Some []))
   \<and> (\<forall>q \<in> set (sent (create_receipt w access_token cashier order_id client products discount payment relation_id)).
       has_key (req_json q) ''discounts'' = (discount \<noteq> None \<and> discount \<noteq> Some []))"
proof -
  have built: "has_key receipt ''discounts'' = (discount \<noteq> None \<and> discount \<noteq> Some [])"
    if b: "build_receipt w cashier order_id client products discount payment = Inr receipt"
    for receipt
  proof -
    from b have "money_ok w products discount payment"
      using build_receipt_ok [of w cashier order_id client products discount payment] by blast
    then have "\<And>d. discount = Some d \<Longrightarrow> d \<noteq> [] \<Longrightarrow> \<exists>v. discount_value_of w d = Inr v"
      by (auto simp: money_ok_def discount_value_of_def convertible_def split: sum.splits if_splits)
    then show ?thesis
      by (auto simp: has_key_def receipt_discounts [OF b] split: option.splits sum.splits)
  qed
  have "has_key (req_json q) ''discounts'' = (discount \<noteq> None \<and> discount \<noteq> Some [])"
    if q: "q \<in> set (sent (create_receipt w access_token cashier order_id client products discount payment relation_id))"
    for q
  proof -
    from q obtain receipt where
      b: "build_receipt w cashier order_id client products discount payment = Inr receipt"
      by (rule sent_needs_receipt)
    show ?thesis
      using built [OF b] sent_body_discounts [OF b q] by (simp add: has_key_def)
  qed
  with built show ?thesis by blast
qed

text \<open>The example order with the discount of 10 percent.\<close>

theorem discounts_present_iff_nonempty_witness:
  "build_receipt (demo_env ok_reply) ''Anna'' 17 demo_client demo_products (Some demo_percent)
      (demo_payment ''FULL'') = Inr (demo_receipt @ [demo_discounts ''PERCENT'' 10])
   \<and> has_key (demo_receipt @ [demo_discounts ''PERCENT'' 10]) ''discounts''
   \<and> sent (create_receipt (demo_env ok_reply) ''token'' ''Anna'' 17 demo_client demo_products
        (Some demo_percent) (demo_payment ''FULL'') None) =
       [post_request (demo_env ok_reply) ''token'' ''receipts/sell''
          (demo_receipt @ [demo_discounts ''PERCENT'' 10])]
   \<and> has_key (req_json (post_request (demo_env ok_reply) ''token'' ''receipts/sell''
          (demo_receipt @ [demo_discounts ''PERCENT'' 10]))) ''discounts''"
proof -
  have b: "build_receipt (demo_env ok_reply) ''Anna'' 17 demo_client demo_products (Some demo_percent)
      (demo_payment ''FULL'') = Inr (demo_receipt @ [demo_discounts ''PERCENT'' 10])"
    by (rule demo_build_percent)
  have s: "sent (create_receipt (demo_env ok_reply) ''token'' ''Anna'' 17 demo_client demo_products
        (Some demo_percent) (demo_payment ''FULL'') None) =
       [post_request (demo_env ok_reply) ''token'' ''receipts/sell''
          (demo_receipt @ [demo_discounts ''PERCENT'' 10])]"
    by (simp add: create_receipt_sent [OF b] demo_method)
  have ne: "Some demo_percent \<noteq> None \<and> Some demo_percent \<noteq> Some []"
    by (simp add: demo_percent_def)
  from discounts_present_iff_nonempty
    [of "demo_env ok_reply" "''Anna''" 17 demo_client demo_products "Some demo_percent"
        "demo_payment ''FULL''" "''token''" None]
    b s ne
  show ?thesis by simp
qed

text \<open>
  Claim C10 says that every supplied discount whose type is not \<^verbatim>\<open>"VALUE"\<close>, a missing
  type included, is emitted with its amount unchanged. The empty dictionary is such a
  discount, and nothing is emitted for it.
\<close>

theorem empty_discount_not_emitted_counterexample:
  "dict_get [] ''discount_type'' PNone \<noteq> PStr ''VALUE''
   \<and> map (\<lambda>q. map_of (req_json q) ''discounts'')
       (sent (create_receipt (demo_env ok_reply) ''token'' ''Anna'' 17 demo_client demo_products
          (Some []) (demo_payment ''PREPAYMENT'') None)) = [None]"
proof -
  have "dict_get [] ''discount_type'' PNone \<noteq> PStr ''VALUE''"
    by (simp add: dict_get_def)
  moreover have "map_of demo_receipt ''discounts'' = None"
    by (simp add: demo_receipt_def)
  ultimately show ?thesis
    by (simp add: create_receipt_sent [OF demo_build_empty] demo_method post_request_def)
qed

text \<open>
  Claim C10, as amended. For every supplied discount that is not the empty dictionary
  and whose \<open>discount_type\<close> is anything but \<^verbatim>\<open>"VALUE"\<close> (another string, another
  value, or missing, which reads as \<^verbatim>\<open>None\<close>), the \<open>discounts\<close> field of the receipt
  that is built, and of the body of every request made, is the single entry whose
  \<open>value\<close> is the \<open>discount_amount\<close> as given (\<^verbatim>\<open>None\<close> when missing) and whose
  \<open>mode\<close> is the \<open>discount_type\<close> as given; for the empty dictionary there is no
  \<open>discounts\<close> field.
\<close>

theorem other_discount_types_pass_through:
  assumes "discount = Some d" and "dict_get d ''discount_type'' PNone \<noteq> PStr ''VALUE''"
  shows "(\<forall>receipt. build_receipt w cashier order_id client products discount payment = Inr receipt \<longrightarrow>
            map_of receipt ''discounts'' =
              (if d = [] then None
               else Some (PList [PDict [(''type'', PStr ''DISCOUNT''),
                                        (''mode'', dict_get d ''discount_type'' PNone),
                                        (''value'', dict_get d ''discount_amount'' PNone),
                                        (''name'', PStr discount_name)]])))
       \<and> (\<forall>q \<in> set (sent (create_receipt w access_token cashier order_id client products discount payment relation_id)).
            map_of (req_json q) ''discounts'' =
              (if d = [] then None
               else Some (PList [PDict [(''type'', PStr ''DISCOUNT''),
                                        (''mode'', dict_get d ''discount_type'' PNone),
                                        (''value'', dict_get d ''discount_amount'' PNone),
                                        (''name'', PStr discount_name)]])))"
proof -
  have built: "map_of receipt ''discounts'' =
              (if d = [] then None
               else Some (PList [PDict [(''type'', PStr ''DISCOUNT''),
                                        (''mode'', dict_get d ''discount_type'' PNone),
                                        (''value'', dict_get d ''discount_amount'' PNone),
                                        (''name'', PStr discount_name)]]))"
    if b: "build_receipt w cashier order_id client products discount payment = Inr receipt"
    for receipt
    using assms by (simp add: receipt_discounts [OF b] discount_value_of_def discount_entry_def)
  have "map_of (req_json q) ''discounts'' =
              (if d = [] then None
               else Some (PList [PDict [(''type'', PStr ''DISCOUNT''),
                                        (''mode'', dict_get d ''discount_type'' PNone),
                                        (''value'', dict_get d ''discount_amount'' PNone),
                                        (''name'', PStr discount_name)]]))"
    if q: "q \<in> set (sent (create_receipt w access_token cashier order_id client products discount payment relation_id))"
    for q
  proof -
    from q obtain receipt where
      b: "build_receipt w cashier order_id client products discount payment = Inr receipt"
      by (rule sent_needs_receipt)
    show ?thesis
      using built [OF b] sent_body_discounts [OF b q] by simp
  qed
  with built show ?thesis by blast
qed

text \<open>The example order with the discount of 10 percent, as a prepayment.\<close>

theorem other_discount_types_pass_through_witness:
  "dict_get demo_percent ''discount_type'' PNone \<noteq> PStr ''VALUE''
   \<and> build_receipt (demo_env ok_reply) ''Anna'' 17 demo_client demo_products (Some demo_percent)
        (demo_payment ''PREPAYMENT'') = Inr (demo_receipt @ [demo_discounts ''PERCENT'' 10])
   \<and> map_of (demo_receipt @ [demo_discounts ''PERCENT'' 10]) ''discounts'' =
       Some (PList [PDict [(''type'', PStr ''DISCOUNT''), (''mode'', PStr ''PERCENT''),
                           (''value'', PInt 10), (''name'', PStr discount_name)]])
   \<and> map (\<lambda>q. map_of (req_json q) ''discounts'')
        (sent (create_receipt (demo_env ok_reply) ''token'' ''Anna'' 17 demo_client demo_products
           (Some demo_percent) (demo_payment ''PREPAYMENT'') None)) =
       [Some (PList [PDict [(''type'', PStr ''DISCOUNT''), (''mode'', PStr ''PERCENT''),
                            (''value'', PInt 10), (''name'', PStr discount_name)]])]"
proof -
  have b: "build_receipt (demo_env ok_reply) ''Anna'' 17 demo_client demo_products (Some demo_percent)
      (demo_payment ''PREPAYMENT'') = Inr (demo_receipt @ [demo_discounts ''PERCENT'' 10])"
    by (rule demo_build_percent)
  have s: "sent (create_receipt (demo_env ok_reply) ''token'' ''Anna'' 17 demo_client demo_products
        (Some demo_percent) (demo_payment ''PREPAYMENT'') None) =
       [post_request (demo_env ok_reply) ''token'' ''prepayment-receipts''
          (demo_receipt @ [demo_discounts ''PERCENT'' 10])]"
    by (simp add: create_receipt_sent [OF b] demo_method)
  have h: "dict_get demo_percent ''discount_type'' PNone \<noteq> PStr ''VALUE''"
    by (simp add: demo_percent_def dict_get_def)
  have v: "dict_get demo_percent ''discount_type'' PNone = PStr ''PERCENT''"
      "dict_get demo_percent ''discount_amount'' PNone = PInt 10" "demo_percent \<noteq> []"
    by (simp_all add: demo_percent_def dict_get_def)
  from other_discount_types_pass_through
    [OF refl h, of "demo_env ok_reply" "''Anna''" 17 demo_client demo_products
        "demo_payment ''PREPAYMENT''" "''token''" None]
    b s h v
  show ?thesis by simp
qed

section \<open>The operations as a whole\<close>




end
